theory Spec2Isabelle
  imports Complex_Main "HOL-Library.AList"
begin

section \<open>JavaScript values\<close>

text \<open>
  The sources are TypeScript; at run time their data are JavaScript values. A number is
  a finite value or one of the three non-finite ones (rounding of doubles is not
  modelled). A string is a list of code units below \<open>U+0100\<close>. An object value is
  a plain object: the list of its own enumerable properties in enumeration order, with
  distinct keys, inheriting from \<open>Object.prototype\<close>; an array value has no holes and
  no properties besides its elements and \<open>length\<close>. Function values are kept out of
  \<open>jsval\<close> and appear as HOL functions where the sources take callbacks.
\<close>

datatype jsnumber = Fin real | PosInfinity | NegInfinity | NaN

datatype jsval =
    JUndefined
  | JNull
  | JBool bool
  | JNum jsnumber
  | JStr string
  | JArr "jsval list"
  | JObj "(string \<times> jsval) list"

type_synonym obj = "(string \<times> jsval) list"

datatype jstype = TUndefined | TObject | TBoolean | TNumber | TString

fun typeof :: "jsval \<Rightarrow> jstype" where
  "typeof JUndefined = TUndefined"
| "typeof JNull = TObject"
| "typeof (JBool _) = TBoolean"
| "typeof (JNum _) = TNumber"
| "typeof (JStr _) = TString"
| "typeof (JArr _) = TObject"
| "typeof (JObj _) = TObject"

text \<open>Truthiness, as \<open>if (v)\<close> and \<open>!v\<close> test it.\<close>

fun truthy :: "jsval \<Rightarrow> bool" where
  "truthy JUndefined = False"
| "truthy JNull = False"
| "truthy (JBool b) = b"
| "truthy (JNum n) = (n \<noteq> Fin 0 \<and> n \<noteq> NaN)"
| "truthy (JStr s) = (s \<noteq> [])"
| "truthy (JArr _) = True"
| "truthy (JObj _) = True"

fun isArray :: "jsval \<Rightarrow> bool" where
  "isArray (JArr _) = True"
| "isArray _ = False"

text \<open>
  The built-in \<open>Object.prototype.hasOwnProperty\<close> applied to a list of own properties.
\<close>

definition hasOwnProperty :: "obj \<Rightarrow> string \<Rightarrow> bool" where
  "hasOwnProperty m k = (map_of m k \<noteq> None)"

text \<open>The own property \<open>k\<close> of a list of own properties, or \<open>undefined\<close>.\<close>

definition at_key :: "obj \<Rightarrow> string \<Rightarrow> jsval" where
  "at_key m k = (case map_of m k of Some v \<Rightarrow> v | None \<Rightarrow> JUndefined)"

section \<open>Own properties and their order\<close>

text \<open>
  The decimal string of a number, as the key of an array element or of a numeric index
  used as a property key.
\<close>

definition digit :: "nat \<Rightarrow> char" where
  "digit n = ''0123456789'' ! (n mod 10)"

function string_of_nat :: "nat \<Rightarrow> string" where
  "string_of_nat n =
     (if n < 10 then [digit n] else string_of_nat (n div 10) @ [digit n])"
  by pat_completeness auto
termination
  by (relation "measure id") auto

text \<open>
  The own keys of an object enumerate its array indices first, in ascending order, and
  then its other keys in the order of their creation. An array index is a canonical
  decimal string (the regular expression \<open>^(?:0|[1-9]\d*)$\<close>, which lodash calls
  \<open>reIsUint\<close>) of a number below \<open>2^32 - 1\<close>.
\<close>

definition isDigit :: "char \<Rightarrow> bool" where
  "isDigit c = (c \<in> set ''0123456789'')"

fun digitsValue :: "int \<Rightarrow> string \<Rightarrow> int" where
  "digitsValue acc [] = acc"
| "digitsValue acc (c # cs) = digitsValue (acc * 10 + (of_char c - 48)) cs"

definition uintString :: "string \<Rightarrow> bool" where
  "uintString k =
     (if k = ''0'' then True else k \<noteq> [] \<and> list_all isDigit k \<and> hd k \<noteq> CHR ''0'')"

definition isArrayIndex :: "string \<Rightarrow> bool" where
  "isArrayIndex k = (uintString k \<and> digitsValue 0 k < 4294967295)"

fun insertIndex :: "string \<Rightarrow> jsval \<Rightarrow> obj \<Rightarrow> obj" where
  "insertIndex k v [] = [(k, v)]"
| "insertIndex k v ((k', v') # m) =
     (if isArrayIndex k' \<and> digitsValue 0 k' < digitsValue 0 k
      then (k', v') # insertIndex k v m
      else (k, v) # (k', v') # m)"

text \<open>
  Creating or overwriting the own data property \<open>k\<close>: an existing property keeps its
  place, a new array index goes to its place among the indices, and any other new key
  goes last.
\<close>

definition defineProperty :: "string \<Rightarrow> jsval \<Rightarrow> obj \<Rightarrow> obj" where
  "defineProperty k v m =
     (if hasOwnProperty m k then AList.update k v m
      else if isArrayIndex k then insertIndex k v m
      else m @ [(k, v)])"


text \<open>The own enumerable properties of a value, as \<open>{...v}\<close> copies them.\<close>

fun own_entries :: "jsval \<Rightarrow> obj" where
  "own_entries (JObj kvs) = kvs"
| "own_entries (JArr xs) = zip (map string_of_nat [0..<length xs]) xs"
| "own_entries (JStr s) = zip (map string_of_nat [0..<length s]) (map (\<lambda>c. JStr [c]) s)"
| "own_entries _ = []"

section \<open>An object and its prototype\<close>

text \<open>
  The internal map of a \<open>DictAtom\<close> is an object that the caller's keys are written
  into with \<open>m[k] = v\<close>, so the key \<open>__proto__\<close> can replace its prototype and the key
  \<open>hasOwnProperty\<close> can shadow the method that the source calls on it. Such an object
  is its own properties together with its prototype: \<open>Object.prototype\<close>, \<open>null\<close>,
  or an object or array value.
\<close>

datatype prototype = ObjectPrototype | NullPrototype | ValuePrototype jsval

record plain =
  own :: obj
  proto :: prototype

text \<open>An object literal, or an object value: it inherits from \<open>Object.prototype\<close>.\<close>

definition plainObject :: "obj \<Rightarrow> plain" where
  "plainObject m = \<lparr>own = m, proto = ObjectPrototype\<rparr>"

text \<open>
  Reading \<open>p[k]\<close> for a key \<open>k\<close> that is \<open>length\<close> or the decimal string of a number
  (the keys that lodash \<open>forEach\<close> reads): the own property, or else the property of
  the prototype. \<open>Object.prototype\<close> has neither.
\<close>

definition inheritedGet :: "prototype \<Rightarrow> string \<Rightarrow> jsval" where
  "inheritedGet pr k =
     (case pr of
        ValuePrototype v \<Rightarrow>
          (case v of
             JArr xs \<Rightarrow>
               if k = ''length'' then JNum (Fin (real (length xs)))
               else at_key (own_entries v) k
           | _ \<Rightarrow> at_key (own_entries v) k)
      | _ \<Rightarrow> JUndefined)"

definition getProp :: "plain \<Rightarrow> string \<Rightarrow> jsval" where
  "getProp p k =
     (if hasOwnProperty (own p) k then at_key (own p) k else inheritedGet (proto p) k)"

text \<open>
  The assignment \<open>p[k] = v\<close>. An own property is overwritten. Otherwise the key
  \<open>__proto__\<close> reaches the setter of \<open>Object.prototype\<close>, unless the prototype is
  \<open>null\<close> or has an own property of that name, and the setter replaces the prototype
  when \<open>v\<close> is an object or \<open>null\<close> and does nothing for any other \<open>v\<close>. In every
  other case an own property is created.
\<close>

definition reachesProtoSetter :: "prototype \<Rightarrow> bool" where
  "reachesProtoSetter pr =
     (case pr of
        ObjectPrototype \<Rightarrow> True
      | NullPrototype \<Rightarrow> False
      | ValuePrototype v \<Rightarrow> \<not> hasOwnProperty (own_entries v) ''__proto__'')"

fun setPrototypeOf :: "jsval \<Rightarrow> prototype \<Rightarrow> prototype" where
  "setPrototypeOf (JObj kvs) pr = ValuePrototype (JObj kvs)"
| "setPrototypeOf (JArr xs) pr = ValuePrototype (JArr xs)"
| "setPrototypeOf JNull pr = NullPrototype"
| "setPrototypeOf _ pr = pr"

definition assignProperty :: "plain \<Rightarrow> string \<Rightarrow> jsval \<Rightarrow> plain" where
  "assignProperty p k v =
     (if hasOwnProperty (own p) k then p\<lparr>own := AList.update k v (own p)\<rparr>
      else if k = ''__proto__'' \<and> reachesProtoSetter (proto p)
      then p\<lparr>proto := setPrototypeOf v (proto p)\<rparr>
      else p\<lparr>own := defineProperty k v (own p)\<rparr>)"

text \<open>\<open>delete p[k]\<close>.\<close>

definition deleteProperty :: "plain \<Rightarrow> string \<Rightarrow> plain" where
  "deleteProperty p k = p\<lparr>own := AList.delete k (own p)\<rparr>"

text \<open>
  The method call \<open>p.hasOwnProperty(k)\<close>. The method is looked up on \<open>p\<close>: an own
  property of that name, or one of an object that is its prototype, holds a value that
  is not a function, and a \<open>null\<close> prototype gives \<open>undefined\<close>; calling either throws
  a \<open>TypeError\<close>. Otherwise the built-in method of \<open>Object.prototype\<close> answers.
\<close>

datatype type_error = NotAFunction

definition findsHasOwnProperty :: "plain \<Rightarrow> bool" where
  "findsHasOwnProperty p =
     (if hasOwnProperty (own p) ''hasOwnProperty'' then False
      else (case proto p of
              ObjectPrototype \<Rightarrow> True
            | NullPrototype \<Rightarrow> False
            | ValuePrototype v \<Rightarrow> \<not> hasOwnProperty (own_entries v) ''hasOwnProperty''))"

definition callHasOwnProperty :: "plain \<Rightarrow> string \<Rightarrow> type_error + bool" where
  "callHasOwnProperty p k =
     (if findsHasOwnProperty p then Inr (hasOwnProperty (own p) k) else Inl NotAFunction)"

section \<open>lodash \<open>forEach\<close>\<close>

text \<open>
  lodash \<open>forEach(collection, iteratee)\<close> on an object. When \<open>collection.length\<close> is
  a number that lodash accepts as a length (an integer from \<open>0\<close> to \<open>2^53 - 1\<close>), the
  object is taken as array-like and the iteratee receives \<open>collection[i]\<close> and the
  number \<open>i\<close> for every \<open>i\<close> below the length; otherwise it receives the own enumerable
  properties, value and key. The list is the sequence of arguments of the iteratee; no
  iteratee of the sources returns \<open>false\<close>, so the iteration is never cut short.
\<close>

datatype pkey = Name string | Index nat

fun toPropertyKey :: "pkey \<Rightarrow> string" where
  "toPropertyKey (Name k) = k"
| "toPropertyKey (Index i) = string_of_nat i"

fun arrayLikeLength :: "jsval \<Rightarrow> nat option" where
  "arrayLikeLength (JNum (Fin r)) =
     (if - 1 < r \<and> r = of_int \<lfloor>r\<rfloor> \<and> r \<le> 9007199254740991 then Some (nat \<lfloor>r\<rfloor>) else None)"
| "arrayLikeLength _ = None"

definition forEachArgs :: "plain \<Rightarrow> (pkey \<times> jsval) list" where
  "forEachArgs p =
     (case arrayLikeLength (getProp p ''length'') of
        Some n \<Rightarrow> map (\<lambda>i. (Index i, getProp p (string_of_nat i))) [0..<n]
      | None \<Rightarrow> map (\<lambda>(k, v). (Name k, v)) (own p))"

section \<open>DictAtom (shared/DataVerse/atoms/dict.tsx)\<close>

text \<open>
  The event type \<open>DictAtomChangeType\<close> of the source. The added keys are the keys as
  the iteratee of \<open>forEach\<close> received them.
\<close>

record change =
  overriddenRefs :: obj
  deletedKeys :: "string list"
  addedKeys :: "pkey list"

datatype ownership = Adopt pkey jsval | Unadopt pkey jsval

text \<open>
  Modelled from the spec: the base class \<open>AbstractCompositeAtom\<close> and its change
  emitter are not among the sources. The state of an atom is its internal map, the
  number of registered listeners, the list of events emitted so far and the list of
  \<open>_adopt\<close> and \<open>_unadopt\<close> calls made so far.
\<close>

record DictAtom =
  internalMap :: plain
  tappers :: nat
  emitted :: "change list"
  ownerships :: "ownership list"

text \<open>
  Modelled from the spec: the emitter of the absent base class. \<open>hasTappers\<close> holds
  when at least one listener is registered, \<open>emit\<close> delivers one event, and \<open>tap\<close>
  registers a listener.
\<close>

definition hasTappers :: "DictAtom \<Rightarrow> bool" where
  "hasTappers a = (0 < tappers a)"

definition emit :: "change \<Rightarrow> DictAtom \<Rightarrow> DictAtom" where
  "emit c a = a\<lparr>emitted := emitted a @ [c]\<rparr>"

definition tap :: "DictAtom \<Rightarrow> DictAtom" where
  "tap a = a\<lparr>tappers := Suc (tappers a)\<rparr>"

text \<open>
  Modelled from the spec: \<open>_adopt\<close> and \<open>_unadopt\<close> of the absent base class take
  and release ownership of a value; they emit nothing.
\<close>

definition adopt :: "pkey \<Rightarrow> jsval \<Rightarrow> DictAtom \<Rightarrow> DictAtom" where
  "adopt k v a = a\<lparr>ownerships := ownerships a @ [Adopt k v]\<rparr>"

definition unadopt :: "pkey \<Rightarrow> jsval \<Rightarrow> DictAtom \<Rightarrow> DictAtom" where
  "unadopt k v a = a\<lparr>ownerships := ownerships a @ [Unadopt k v]\<rparr>"

text \<open>\<open>super()\<close> followed by the two field initialisations of the constructor.\<close>

definition emptyAtom :: DictAtom where
  "emptyAtom =
     \<lparr>internalMap = plainObject [], tappers = 0, emitted = [], ownerships = []\<rparr>"

text \<open>
  \<open>this._internalMap[k] = v; this._adopt(k, v)\<close>, the iteratee shared by
  \<open>_assignInitialValue\<close> and the last loop of \<open>_change\<close>, and its loop over the
  arguments that \<open>forEach\<close> supplies.
\<close>

definition setAndAdopt :: "pkey \<Rightarrow> jsval \<Rightarrow> DictAtom \<Rightarrow> DictAtom" where
  "setAndAdopt k v a =
     adopt k v (a\<lparr>internalMap := assignProperty (internalMap a) (toPropertyKey k) v\<rparr>)"

fun setAndAdoptAll :: "(pkey \<times> jsval) list \<Rightarrow> DictAtom \<Rightarrow> DictAtom" where
  "setAndAdoptAll [] a = a"
| "setAndAdoptAll ((k, v) # args) a = setAndAdoptAll args (setAndAdopt k v a)"

definition assignInitialValue :: "obj \<Rightarrow> DictAtom \<Rightarrow> DictAtom" where
  "assignInitialValue ob a = setAndAdoptAll (forEachArgs (plainObject ob)) a"

definition dict :: "obj \<Rightarrow> DictAtom" where
  "dict ob = assignInitialValue ob emptyAtom"

definition dict_prop :: "DictAtom \<Rightarrow> string \<Rightarrow> type_error + jsval" where
  "dict_prop a key =
     (case callHasOwnProperty (internalMap a) key of
        Inl e \<Rightarrow> Inl e
      | Inr present \<Rightarrow> Inr (if present then at_key (own (internalMap a)) key else JUndefined))"


text \<open>
  The loops of \<open>_change\<close>, in the order of the source. The first three only read the
  atom and may throw; the last three write it and cannot.
\<close>

fun collectAddedKeys ::
  "DictAtom \<Rightarrow> (pkey \<times> jsval) list \<Rightarrow> pkey list \<Rightarrow> type_error + pkey list" where
  "collectAddedKeys a [] acc = Inr acc"
| "collectAddedKeys a ((k, _) # args) acc =
     (case callHasOwnProperty (internalMap a) (toPropertyKey k) of
        Inl e \<Rightarrow> Inl e
      | Inr present \<Rightarrow> collectAddedKeys a args (if \<not> present then acc @ [k] else acc))"

text \<open>
  lodash \<open>mapValues(o, (_v, k) => this.prop(k))\<close>: a new object with the own keys of
  \<open>o\<close>, in order.
\<close>

fun previousRefs :: "DictAtom \<Rightarrow> obj \<Rightarrow> obj \<Rightarrow> type_error + obj" where
  "previousRefs a [] refs = Inr refs"
| "previousRefs a ((k, _) # ob) refs =
     (case dict_prop a k of
        Inl e \<Rightarrow> Inl e
      | Inr v \<Rightarrow> previousRefs a ob (defineProperty k v refs))"

fun addDeletedRefs :: "DictAtom \<Rightarrow> string list \<Rightarrow> plain \<Rightarrow> type_error + plain" where
  "addDeletedRefs a [] refs = Inr refs"
| "addDeletedRefs a (propName # ks) refs =
     (case dict_prop a propName of
        Inl e \<Rightarrow> Inl e
      | Inr v \<Rightarrow> addDeletedRefs a ks (assignProperty refs propName v))"

fun unadoptAll :: "(pkey \<times> jsval) list \<Rightarrow> DictAtom \<Rightarrow> DictAtom" where
  "unadoptAll [] a = a"
| "unadoptAll ((k, v) # args) a = unadoptAll args (if truthy v then unadopt k v a else a)"

fun deleteAll :: "string list \<Rightarrow> DictAtom \<Rightarrow> DictAtom" where
  "deleteAll [] a = a"
| "deleteAll (key # ks) a =
     deleteAll ks (a\<lparr>internalMap := deleteProperty (internalMap a) key\<rparr>)"

definition dict_change :: "obj \<Rightarrow> string list \<Rightarrow> DictAtom \<Rightarrow> type_error + DictAtom" where
  "dict_change ob keysToDelete a =
     (case collectAddedKeys a (forEachArgs (plainObject ob)) [] of
        Inl e \<Rightarrow> Inl e
      | Inr added \<Rightarrow>
          (case previousRefs a ob [] of
             Inl e \<Rightarrow> Inl e
           | Inr refs0 \<Rightarrow>
               (case addDeletedRefs a keysToDelete (plainObject refs0) of
                  Inl e \<Rightarrow> Inl e
                | Inr refs \<Rightarrow>
                    (let deleted = keysToDelete;
                         a1 = unadoptAll (forEachArgs refs) a;
                         a2 = deleteAll deleted a1;
                         a3 = setAndAdoptAll (forEachArgs (plainObject ob)) a2
                     in Inr (if hasTappers a3
                             then emit \<lparr>overriddenRefs = ob, deletedKeys = deleted,
                                        addedKeys = added\<rparr> a3
                             else a3)))))"

definition assign :: "obj \<Rightarrow> DictAtom \<Rightarrow> type_error + DictAtom" where
  "assign ob a = dict_change ob [] a"

definition setProp :: "string \<Rightarrow> jsval \<Rightarrow> DictAtom \<Rightarrow> type_error + DictAtom" where
  "setProp key v a = assign [(key, v)] a"

definition deleteProp :: "string \<Rightarrow> DictAtom \<Rightarrow> type_error + DictAtom" where
  "deleteProp key a = dict_change [] [key] a"

section \<open>Object helpers: spread, lodash \<open>pick\<close>, \<open>get\<close> and \<open>set\<close>, lodash/fp \<open>update\<close>\<close>

text \<open>\<open>{...acc, ...v}\<close>: the properties of \<open>v\<close> are defined on \<open>acc\<close> in order.\<close>

fun assignEntries :: "obj \<Rightarrow> obj \<Rightarrow> obj" where
  "assignEntries [] acc = acc"
| "assignEntries ((k, x) # kvs) acc = assignEntries kvs (defineProperty k x acc)"

definition spread :: "obj \<Rightarrow> jsval \<Rightarrow> obj" where
  "spread acc v = assignEntries (own_entries v) acc"

text \<open>\<open>v[k]\<close> for a key that \<open>v\<close> does not inherit and that is not \<open>length\<close>.\<close>

definition getProperty :: "jsval \<Rightarrow> string \<Rightarrow> jsval" where
  "getProperty v k = at_key (own_entries v) k"

text \<open>
  The names that every object inherits from \<open>Object.prototype\<close>, and \<open>prototype\<close>,
  which lodash \<open>set\<close> refuses together with \<open>__proto__\<close> and \<open>constructor\<close>. lodash
  reads such a key through the prototype chain, where it finds a function, so these keys
  are not modelled; nor are keys that lodash parses as deep paths or takes as indices
  into an array.
\<close>

definition prototypeMembers :: "string list" where
  "prototypeMembers =
     [''__proto__'', ''constructor'', ''prototype'', ''hasOwnProperty'', ''isPrototypeOf'',
      ''propertyIsEnumerable'', ''toLocaleString'', ''toString'', ''valueOf'',
      ''__defineGetter__'', ''__defineSetter__'', ''__lookupGetter__'',
      ''__lookupSetter__'']"

definition topLevelKey :: "string \<Rightarrow> bool" where
  "topLevelKey k = (CHR ''.'' \<notin> set k \<and> CHR ''['' \<notin> set k)"

definition pickable :: "string \<Rightarrow> bool" where
  "pickable k = (topLevelKey k \<and> k \<notin> set prototypeMembers)"

text \<open>
  lodash \<open>pick(object, paths)\<close>. It is modelled where \<open>object\<close> is \<open>null\<close> or
  \<open>undefined\<close> (the result is \<open>{}\<close>) and where \<open>object\<close> is a plain object and every
  path is a string that names a top-level key and no member of \<open>Object.prototype\<close>: a
  key is copied when the object has it. For any other input the result is \<open>None\<close>.
\<close>

fun pickKeys :: "obj \<Rightarrow> string list \<Rightarrow> obj \<Rightarrow> obj" where
  "pickKeys object [] acc = acc"
| "pickKeys object (k # paths) acc =
     pickKeys object paths
       (if hasOwnProperty object k then defineProperty k (at_key object k) acc else acc)"

fun stringPaths :: "jsval list \<Rightarrow> string list option" where
  "stringPaths [] = Some []"
| "stringPaths (JStr k # paths) =
     (case stringPaths paths of Some ks \<Rightarrow> Some (k # ks) | None \<Rightarrow> None)"
| "stringPaths (_ # paths) = None"

definition pick :: "jsval \<Rightarrow> jsval list \<Rightarrow> obj option" where
  "pick object paths =
     (case object of
        JNull \<Rightarrow> Some []
      | JUndefined \<Rightarrow> Some []
      | JObj props \<Rightarrow>
          (case stringPaths paths of
             Some ks \<Rightarrow> if list_all pickable ks then Some (pickKeys props ks []) else None
           | None \<Rightarrow> None)
      | _ \<Rightarrow> None)"

text \<open>
  lodash \<open>get\<close> and \<open>set\<close> along a path given as a list of keys. Only plain objects
  are modelled as containers to set into: a missing container is created as an object,
  as lodash does when the next key is no index, and setting into an array, which lodash
  performs, is not modelled (the array is left as it is).
\<close>

fun isObject :: "jsval \<Rightarrow> bool" where
  "isObject (JObj _) = True"
| "isObject (JArr _) = True"
| "isObject _ = False"

fun getAlong :: "jsval \<Rightarrow> string list \<Rightarrow> jsval" where
  "getAlong object [] = object"
| "getAlong object (k # ks) =
     (if object = JNull \<or> object = JUndefined then JUndefined
      else getAlong (getProperty object k) ks)"

definition baseGet :: "jsval \<Rightarrow> string list \<Rightarrow> jsval" where
  "baseGet object path = (if path = [] then JUndefined else getAlong object path)"

fun assignValue :: "jsval \<Rightarrow> string \<Rightarrow> jsval \<Rightarrow> jsval" where
  "assignValue (JObj kvs) k v = JObj (defineProperty k v kvs)"
| "assignValue other k v = other"

fun setAlong :: "string list \<Rightarrow> jsval \<Rightarrow> jsval \<Rightarrow> jsval" where
  "setAlong [] v nested = nested"
| "setAlong [k] v nested = assignValue nested k v"
| "setAlong (k # k' # ks) v nested =
     (let objValue = getProperty nested k;
          newValue = (if isObject objValue then objValue else JObj [])
      in assignValue nested k (setAlong (k' # ks) v newValue))"

definition baseSet :: "jsval \<Rightarrow> string list \<Rightarrow> jsval \<Rightarrow> jsval" where
  "baseSet object path v = (if \<not> isObject object then object else setAlong path v object)"

text \<open>
  lodash/fp \<open>update(path, updater, object)\<close> clones \<open>Object(object)\<close> along the path
  and sets, on the clone, the value at the path to the updater applied to the value found
  there. It is modelled where the root and every container that the path goes through is
  a plain object, \<open>null\<close>, \<open>undefined\<close> or missing, and every key of the path is
  neither a decimal index (for which lodash creates arrays) nor a member of
  \<open>Object.prototype\<close>: a root or container that is \<open>null\<close>, \<open>undefined\<close> or missing
  becomes a new object. For any other input the result is \<open>None\<close>.
\<close>

definition ordinaryKey :: "string \<Rightarrow> bool" where
  "ordinaryKey k = (\<not> uintString k \<and> k \<notin> set prototypeMembers)"

fun container :: "jsval \<Rightarrow> bool" where
  "container (JObj _) = True"
| "container JNull = True"
| "container JUndefined = True"
| "container _ = False"

fun supportedAlong :: "string list \<Rightarrow> jsval \<Rightarrow> bool" where
  "supportedAlong [] v = True"
| "supportedAlong (k # ks) v =
     (ordinaryKey k \<and> container v \<and> supportedAlong ks (getProperty v k))"

fun toObject :: "jsval \<Rightarrow> jsval" where
  "toObject JNull = JObj []"
| "toObject JUndefined = JObj []"
| "toObject v = v"

definition update :: "string list \<Rightarrow> (jsval \<Rightarrow> jsval) \<Rightarrow> jsval \<Rightarrow> jsval option" where
  "update path updater object =
     (if container object \<and> supportedAlong path object
      then Some (setAlong path (updater (baseGet (toObject object) path)) (toObject object))
      else None)"

section \<open>wrapRootReducer (shared/utils/redux/wrapRootReducer.tsx)\<close>

text \<open>
  Modelled from the spec: the type \<open>Pair\<close> of \<open>$shared/utils/sagas/multiReduceState\<close>
  is not among the sources; a pair is a path, here a list of keys, and a reducer for the
  value at that path.
\<close>

record Pair =
  path :: "string list"
  reducer :: "jsval \<Rightarrow> jsval"

text \<open>
  Modelled from the spec: \<open>./commonActions\<close> is not among the sources. Its four action
  types are four distinct tags, each constructor carrying the payload; the payload of a
  \<open>multiReduceStateAction\<close> is the array of pairs that the source casts it to. An action
  of any other type carries its type, and \<open>NonObjectAction\<close> is a dispatched value for
  which \<open>typeof action === 'object' && action !== null\<close> fails.
\<close>

datatype action =
    MergeStateAction jsval
  | SetStateAction jsval
  | ResetStateAction jsval
  | MultiReduceStateAction "Pair list"
  | OtherAction string jsval
  | NonObjectAction jsval

text \<open>
  The errors thrown by the wrapped reducer or by the inner one. \<open>Unmodelled\<close> is no
  error of the source: it marks a dispatch whose result depends on lodash outside the
  inputs for which \<open>pick\<close> and \<open>update\<close> are modelled above.
\<close>

datatype error =
    MergePayloadMustBeObject jsval
  | MergeStateMustBeObjectOrVoid jsval
  | ResetStateMustBeObjectOrVoid jsval
  | ReducerError string
  | Unmodelled

type_synonym Reducer = "jsval \<Rightarrow> action \<Rightarrow> error + jsval"

text \<open>\<open>pairs.reduce(f, state)\<close>.\<close>

fun array_reduce :: "('b \<Rightarrow> 'a \<Rightarrow> 'b) \<Rightarrow> 'a list \<Rightarrow> 'b \<Rightarrow> 'b" where
  "array_reduce f [] acc = acc"
| "array_reduce f (x # xs) acc = array_reduce f xs (f acc x)"

text \<open>
  The callback of that \<open>reduce\<close>, \<open>(acc, pair) => update(pair.path, pair.reducer, acc)\<close>,
  on an accumulator that is \<open>None\<close> once a step has left the modelled inputs.
\<close>

definition reducePair :: "jsval option \<Rightarrow> Pair \<Rightarrow> jsval option" where
  "reducePair acc pair =
     (case acc of None \<Rightarrow> None | Some s \<Rightarrow> update (path pair) (reducer pair) s)"

fun wrapRootReducer :: "Reducer \<Rightarrow> jsval \<Rightarrow> action \<Rightarrow> error + jsval" where
  "wrapRootReducer rootReducer state (MergeStateAction payload) =
     (if \<not> (payload \<noteq> JNull \<and> typeof payload = TObject)
      then Inl (MergePayloadMustBeObject payload)
      else if \<not> (state \<noteq> JNull \<and> typeof state = TObject) \<or> typeof state = TUndefined
      then Inl (MergeStateMustBeObjectOrVoid state)
      else Inr (JObj (spread (spread [] (if truthy state then state else JObj [])) payload)))"
| "wrapRootReducer rootReducer state (SetStateAction payload) = Inr payload"
| "wrapRootReducer rootReducer state (ResetStateAction payload) =
     (case rootReducer JUndefined (ResetStateAction payload) of
        Inl e \<Rightarrow> Inl e
      | Inr initialState \<Rightarrow>
          if \<not> (state \<noteq> JNull \<and> typeof state = TObject) \<or> typeof state = TUndefined
          then Inl (ResetStateMustBeObjectOrVoid state)
          else (case payload of
                  JArr paths \<Rightarrow>
                    (case pick initialState paths of
                       Some picked \<Rightarrow>
                         Inr (JObj (spread
                                      (spread [] (if truthy state then state else JObj []))
                                      (JObj picked)))
                     | None \<Rightarrow> Inl Unmodelled)
                | _ \<Rightarrow> Inr initialState))"
| "wrapRootReducer rootReducer state (MultiReduceStateAction pairs) =
     (case array_reduce reducePair pairs (Some state) of
        Some newState \<Rightarrow> Inr newState
      | None \<Rightarrow> Inl Unmodelled)"
| "wrapRootReducer rootReducer state (OtherAction t payload) =
     rootReducer state (OtherAction t payload)"
| "wrapRootReducer rootReducer state (NonObjectAction x) =
     rootReducer state (NonObjectAction x)"

text \<open>
  The fixtures of the reducer examples: an inner reducer whose initial state is
  \<open>{x: 1, y: 2}\<close> and which leaves a defined state as it is, and the two updaters
  \<open>v => v + 1\<close> and \<open>v => v * 2\<close>, which are only applied to numbers there.
\<close>

definition exampleReducer :: Reducer where
  "exampleReducer state a =
     Inr (if state = JUndefined then JObj [(''x'', JNum (Fin 1)), (''y'', JNum (Fin 2))]
          else state)"

fun plusOne :: "jsval \<Rightarrow> jsval" where
  "plusOne (JNum (Fin v)) = JNum (Fin (v + 1))"
| "plusOne (JNum n) = JNum n"
| "plusOne _ = JNum NaN"


section \<open>State persistence (lb/statePersistor/sagas.tsx)\<close>

definition whitelistOfPartsOfStateToPersist :: "string list list" where
  "whitelistOfPartsOfStateToPersist = [[''projects'', ''listOfPaths'']]"

subsection \<open>The load phase\<close>

text \<open>
  Modelled from the spec: \<open>$src/shared/utils/spreadPaths\<close> is not among the sources.
  It takes the target state and, for each path, overlays the value that the source
  holds at that path onto it.
\<close>

fun spreadPaths :: "string list list \<Rightarrow> jsval \<Rightarrow> jsval \<Rightarrow> jsval" where
  "spreadPaths [] source target = target"
| "spreadPaths (p # paths) source target =
     spreadPaths paths source (baseSet target p (baseGet source p))"

text \<open>
  Modelled from the spec: \<open>$lb/common/actions\<close> is not among the sources; its two
  action creators are the two constructors.
\<close>

datatype lb_action = bootstrapAction | setStateAction jsval

text \<open>
  What the saga makes visible: the actions it puts and the lines it logs, in order. The
  world it runs in answers its calls: whether the file exists, the content read
  (\<open>None\<close> when the read is rejected) and the state that \<open>select()\<close> returns.
  \<open>JSON.parse\<close> is a parameter that returns \<open>None\<close> where it throws.
\<close>

datatype saga_output = Put lb_action | ConsoleError

datatype saga_error = ReadFileRejected

record world =
  pathExists :: bool
  readFile :: "string option"
  select :: jsval

definition loadState :: "(string \<Rightarrow> jsval option) \<Rightarrow> world \<Rightarrow> saga_error + saga_output list" where
  "loadState JSON_parse w =
     (if \<not> pathExists w then Inr [Put bootstrapAction]
      else case readFile w of
        None \<Rightarrow> Inl ReadFileRejected
      | Some content \<Rightarrow>
          (case JSON_parse content of
             None \<Rightarrow> Inr [ConsoleError, Put bootstrapAction]
           | Some jsonData \<Rightarrow>
               (let oldState = select w;
                    newState = spreadPaths whitelistOfPartsOfStateToPersist jsonData oldState
                in Inr [Put (setStateAction newState), Put bootstrapAction])))"

subsection \<open>The watch phase\<close>

text \<open>
  lodash \<open>pick(object, paths)\<close> for paths given as lists of keys, as the watch phase
  calls it with the whitelist: a path is copied into the result when every key along
  it is present. The keys of the whitelist are inherited by no value, so presence is
  presence among the own properties.
\<close>

fun hasIn :: "jsval \<Rightarrow> string list \<Rightarrow> bool" where
  "hasIn object [] = False"
| "hasIn object (k # ks) =
     (if object = JNull \<or> object = JUndefined then False
      else if \<not> hasOwnProperty (own_entries object) k then False
      else if ks = [] then True
      else hasIn (getProperty object k) ks)"

fun pickPaths :: "jsval \<Rightarrow> string list list \<Rightarrow> jsval \<Rightarrow> jsval" where
  "pickPaths object [] result = result"
| "pickPaths object (p # paths) result =
     pickPaths object paths
       (if hasIn object p then baseSet result p (baseGet object p) else result)"

definition pickPathsFromObject :: "jsval \<Rightarrow> string list list \<Rightarrow> jsval" where
  "pickPathsFromObject object paths =
     (if object = JNull \<or> object = JUndefined then JObj []
      else pickPaths object paths (JObj []))"

text \<open>
  The saga keeps the last projection it persisted; what it makes visible is the sequence
  of projections it writes to the persistence file (\<open>persistNewState\<close> writes
  \<open>JSON.stringify(newState)\<close>; a write is taken as one step).
\<close>

record persistor =
  lastState :: jsval
  writes :: "jsval list"

definition persistNewState :: "jsval \<Rightarrow> persistor \<Rightarrow> persistor" where
  "persistNewState newState p = p\<lparr>writes := writes p @ [newState]\<rparr>"

text \<open>
  The body of the worker after its \<open>delay\<close>, given the state that \<open>select()\<close> returns
  then. \<open>deepEqual\<close>, of the package \<open>deep-equal\<close>, is a parameter.
\<close>

definition worker :: "(jsval \<Rightarrow> jsval \<Rightarrow> bool) \<Rightarrow> jsval \<Rightarrow> persistor \<Rightarrow> persistor" where
  "worker deepEqual current p =
     (let newState = pickPathsFromObject current whitelistOfPartsOfStateToPersist
      in if \<not> deepEqual (lastState p) newState
         then (persistNewState newState p)\<lparr>lastState := newState\<rparr>
         else p)"

text \<open>
  Modelled from the spec: \<open>takeLatest\<close> and \<open>delay\<close> of redux-saga are not among the
  sources. A run of the watch phase is the list of dispatched actions, each with the time
  of its dispatch in milliseconds and the state of the store once it is reduced. Every
  action starts a worker, which waits for the delay and then runs its body on the state
  of the store; an action that arrives before the delay of the previous worker has
  elapsed cancels that worker, which then neither writes nor updates the snapshot.
\<close>

record dispatched =
  at_time :: nat
  storeState :: jsval

definition debounceDelay :: nat where
  "debounceDelay = 2"

fun takeLatest ::
  "nat \<Rightarrow> (jsval \<Rightarrow> persistor \<Rightarrow> persistor) \<Rightarrow> dispatched list \<Rightarrow> persistor \<Rightarrow> persistor" where
  "takeLatest delay body [] p = p"
| "takeLatest delay body [d] p = body (storeState d) p"
| "takeLatest delay body (d # d' # ds) p =
     takeLatest delay body (d' # ds)
       (if at_time d' < at_time d + delay then p else body (storeState d) p)"

definition persistStateChanges ::
  "(jsval \<Rightarrow> jsval \<Rightarrow> bool) \<Rightarrow> jsval \<Rightarrow> dispatched list \<Rightarrow> persistor" where
  "persistStateChanges deepEqual initialState ds =
     takeLatest debounceDelay (worker deepEqual) ds
       \<lparr>lastState = pickPathsFromObject initialState whitelistOfPartsOfStateToPersist,
        writes = []\<rparr>"

text \<open>
  A burst: every action but the first arrives before the delay of the one before it has
  elapsed.
\<close>

fun burst :: "dispatched list \<Rightarrow> bool" where
  "burst [] = True"
| "burst [d] = True"
| "burst (d # d' # ds) =
     (at_time d \<le> at_time d' \<and> at_time d' < at_time d + debounceDelay \<and> burst (d' # ds))"

section \<open>Prop types (theatre/core/src/propTypes/index.ts)\<close>

text \<open>
  The options argument of a constructor: \<open>undefined\<close>, a value that is not an object
  (or is \<open>null\<close>), or an object. Of an object, each field is \<open>None\<close> when the object
  has no such own property and the property's value otherwise. A function-valued option
  is a HOL function (\<open>sanitize\<close>) or a token: \<open>opt_interpolate\<close> tells whether an
  interpolator is given, \<open>opt_nudgeFn\<close> whether the property holds a function.
\<close>

datatype nudge_arg = NudgeFunction | NudgeNotFunction jsval

record opts_fields =
  opt_label :: "jsval option"
  opt_range :: "jsval option"
  opt_nudgeMultiplier :: "jsval option"
  opt_nudgeFn :: "nudge_arg option"
  opt_sanitize :: "(jsval \<Rightarrow> jsval) option"
  opt_interpolate :: bool
  opt_as :: "jsval option"

datatype opts_arg = OptsUndefined | OptsNotObject | Opts opts_fields

datatype config_error =
    OptsMustBeUndefinedOrObject
  | LabelShouldBeString
  | LabelStartsOrEndsWithWhitespace
  | LabelEmpty
  | DefaultMustBeNumber
  | RangeMustBeTuple
  | RangeMustHaveTwoElements
  | RangeMustBeNumbers
  | RangeMustBeOrdered
  | NudgeMultiplierMustBeFinite
  | NudgeFnMustBeFunction
  | DefaultMustBeBoolean
  | DefaultMustBeString

text \<open>\<open>opts?.field\<close>.\<close>

fun optional :: "opts_arg \<Rightarrow> (opts_fields \<Rightarrow> 'a option) \<Rightarrow> 'a option" where
  "optional (Opts fs) field = field fs"
| "optional _ field = None"

text \<open>Whether \<open>opts?.interpolate\<close> is given, for \<open>opts?.interpolate ?? d\<close>.\<close>

fun givesInterpolate :: "opts_arg \<Rightarrow> bool" where
  "givesInterpolate (Opts fs) = opt_interpolate fs"
| "givesInterpolate _ = False"

fun orUndefined :: "jsval option \<Rightarrow> jsval" where
  "orUndefined None = JUndefined"
| "orUndefined (Some v) = v"

text \<open>
  \<open>String.prototype.trim\<close>: the white space and line terminators among the code units
  below \<open>U+0100\<close> are tab, line feed, vertical tab, form feed, carriage return, space
  and the no-break space \<open>U+00A0\<close>.
\<close>

definition isWhiteSpace :: "char \<Rightarrow> bool" where
  "isWhiteSpace c =
     (c \<in> set [CHR 0x09, CHR 0x0A, CHR 0x0B, CHR 0x0C, CHR 0x0D, CHR '' '', CHR 0xA0])"

definition trim :: "string \<Rightarrow> string" where
  "trim s = rev (dropWhile isWhiteSpace (rev (dropWhile isWhiteSpace s)))"

definition production :: "string \<Rightarrow> bool" where
  "production NODE_ENV = (NODE_ENV = ''production'')"

text \<open>The result is the error thrown, or \<open>None\<close> when the function returns.\<close>

definition validateCommonOpts :: "string \<Rightarrow> opts_arg \<Rightarrow> config_error option" where
  "validateCommonOpts NODE_ENV opts =
     (if \<not> production NODE_ENV then
        (case opts of
           OptsUndefined \<Rightarrow> None
         | OptsNotObject \<Rightarrow> Some OptsMustBeUndefinedOrObject
         | Opts fs \<Rightarrow>
             (case opt_label fs of
                None \<Rightarrow> None
              | Some (JStr label) \<Rightarrow>
                  if length (trim label) \<noteq> length label
                  then Some LabelStartsOrEndsWithWhitespace
                  else if length label = 0 then Some LabelEmpty
                  else None
              | Some _ \<Rightarrow> Some LabelShouldBeString))
      else None)"

text \<open>
  The global \<open>isFinite\<close> and \<open>isNaN\<close>. The source calls them behind a
  \<open>typeof\<close> test only, so they are given numbers; \<open>finiteNumber v\<close> is
  \<open>typeof v === 'number' && isFinite(v)\<close>.
\<close>

fun isFinite :: "jsnumber \<Rightarrow> bool" where
  "isFinite (Fin _) = True"
| "isFinite _ = False"

fun isNaN :: "jsnumber \<Rightarrow> bool" where
  "isNaN NaN = True"
| "isNaN _ = False"

fun finiteNumber :: "jsval \<Rightarrow> bool" where
  "finiteNumber (JNum n) = isFinite n"
| "finiteNumber _ = False"

text \<open>\<open>a >= b\<close> on two numbers.\<close>

fun num_ge :: "jsnumber \<Rightarrow> jsnumber \<Rightarrow> bool" where
  "num_ge NaN _ = False"
| "num_ge _ NaN = False"
| "num_ge (Fin a) (Fin b) = (b \<le> a)"
| "num_ge PosInfinity _ = True"
| "num_ge _ NegInfinity = True"
| "num_ge _ _ = False"

text \<open>
  Interpolators and nudge functions are carried as tags naming the function installed;
  their bodies (linear blending, the conversion through Oklab, the nudge arithmetic) take
  no part in validation or sanitizing.
\<close>

datatype interpolator = InterpolateNumber | InterpolateRgba | LeftInterpolate | CustomInterpolate

datatype nudge = DefaultNumberNudgeFn | GivenNudgeFn nudge_arg

text \<open>
  A sanitizer of a config returns its result together with the arguments with which it
  called the sanitizer given in the options, in order: the second component is empty
  when that sanitizer is not invoked.
\<close>

type_synonym sanitizer = "jsval \<Rightarrow> jsval \<times> jsval list"

record PropTypeConfig =
  type_tag :: string
  default_value :: jsval
  label :: jsval
  sanitize :: sanitizer
  interpolate :: interpolator

record PropTypeConfig_Number = PropTypeConfig +
  numRange :: "jsval option"
  nudgeFn :: nudge
  nudgeMultiplier :: jsnumber
  isScalar :: bool

record PropTypeConfig_StringLiteral = PropTypeConfig +
  options :: "(string \<times> string) list"
  as_editor :: jsval

definition sanitizeNumber :: "jsval \<Rightarrow> jsval" where
  "sanitizeNumber v = (if finiteNumber v then v else JUndefined)"

definition sanitizeRgba :: "jsval \<Rightarrow> jsval" where
  "sanitizeRgba val = val"

definition sanitizeBoolean :: "jsval \<Rightarrow> jsval" where
  "sanitizeBoolean val = (if typeof val = TBoolean then val else JUndefined)"

text \<open>The checks on \<open>opts.range\<close>, \<open>opts.nudgeMultiplier\<close> and \<open>opts.nudgeFn\<close>.\<close>

definition checkRange :: "jsval \<Rightarrow> config_error option" where
  "checkRange r =
     (case r of
        JArr elems \<Rightarrow>
          if length elems \<noteq> 2 then Some RangeMustHaveTwoElements
          else if \<not> list_all (\<lambda>n. case n of JNum x \<Rightarrow> \<not> isNaN x | _ \<Rightarrow> False) elems
          then Some RangeMustBeNumbers
          else (case elems of
                  [JNum lo, JNum hi] \<Rightarrow> if num_ge lo hi then Some RangeMustBeOrdered else None
                | _ \<Rightarrow> None)
      | _ \<Rightarrow> Some RangeMustBeTuple)"

definition checkNumberOpts :: "opts_fields \<Rightarrow> config_error option" where
  "checkNumberOpts fs =
     (case (case opt_range fs of None \<Rightarrow> None | Some r \<Rightarrow> checkRange r) of
        Some e \<Rightarrow> Some e
      | None \<Rightarrow>
          (case (case opt_nudgeMultiplier fs of
                   None \<Rightarrow> None
                 | Some m \<Rightarrow>
                     if \<not> finiteNumber m
                     then Some NudgeMultiplierMustBeFinite else None) of
             Some e \<Rightarrow> Some e
           | None \<Rightarrow>
               (case opt_nudgeFn fs of
                  Some (NudgeNotFunction _) \<Rightarrow> Some NudgeFnMustBeFunction
                | _ \<Rightarrow> None)))"

definition validateNumber :: "string \<Rightarrow> jsval \<Rightarrow> opts_arg \<Rightarrow> config_error option" where
  "validateNumber NODE_ENV defaultValue opts =
     (if \<not> production NODE_ENV then
        (case validateCommonOpts NODE_ENV opts of
           Some e \<Rightarrow> Some e
         | None \<Rightarrow>
             if \<not> finiteNumber defaultValue
             then Some DefaultMustBeNumber
             else (case opts of Opts fs \<Rightarrow> checkNumberOpts fs | _ \<Rightarrow> None))
      else None)"

definition numberSanitize :: "opts_arg \<Rightarrow> sanitizer" where
  "numberSanitize opts =
     (case optional opts opt_sanitize of
        None \<Rightarrow> (\<lambda>val. (sanitizeNumber val, []))
      | Some custom \<Rightarrow>
          (\<lambda>val. let n = sanitizeNumber val
                 in if typeof n = TNumber then (custom n, [n]) else (JUndefined, [])))"

definition number :: "string \<Rightarrow> jsval \<Rightarrow> opts_arg \<Rightarrow> config_error + PropTypeConfig_Number" where
  "number NODE_ENV defaultValue opts =
     (case validateNumber NODE_ENV defaultValue opts of
        Some e \<Rightarrow> Inl e
      | None \<Rightarrow>
          Inr \<lparr>type_tag = ''number'',
               default_value = defaultValue,
               label = orUndefined (optional opts opt_label),
               sanitize = numberSanitize opts,
               interpolate =
                 (if givesInterpolate opts then CustomInterpolate else InterpolateNumber),
               numRange = optional opts opt_range,
               nudgeFn =
                 (case optional opts opt_nudgeFn of
                    None \<Rightarrow> DefaultNumberNudgeFn
                  | Some (NudgeNotFunction JUndefined) \<Rightarrow> DefaultNumberNudgeFn
                  | Some (NudgeNotFunction JNull) \<Rightarrow> DefaultNumberNudgeFn
                  | Some f \<Rightarrow> GivenNudgeFn f),
               nudgeMultiplier =
                 (case optional opts opt_nudgeMultiplier of
                    Some (JNum m) \<Rightarrow> m
                  | _ \<Rightarrow> Fin 1),
               isScalar = True\<rparr>)"

definition rgba :: "string \<Rightarrow> jsval \<Rightarrow> opts_arg \<Rightarrow> config_error + PropTypeConfig" where
  "rgba NODE_ENV defaultValue opts =
     (case (if \<not> production NODE_ENV then validateCommonOpts NODE_ENV opts else None) of
        Some e \<Rightarrow> Inl e
      | None \<Rightarrow>
          Inr \<lparr>type_tag = ''rgba'',
               default_value = defaultValue,
               label = orUndefined (optional opts opt_label),
               sanitize = (\<lambda>val. (sanitizeRgba val, [])),
               interpolate =
                 (if givesInterpolate opts then CustomInterpolate else InterpolateRgba)\<rparr>)"

definition boolean :: "string \<Rightarrow> jsval \<Rightarrow> opts_arg \<Rightarrow> config_error + PropTypeConfig" where
  "boolean NODE_ENV defaultValue opts =
     (case (if \<not> production NODE_ENV then
              (case validateCommonOpts NODE_ENV opts of
                 Some e \<Rightarrow> Some e
               | None \<Rightarrow>
                   if typeof defaultValue \<noteq> TBoolean then Some DefaultMustBeBoolean else None)
            else None) of
        Some e \<Rightarrow> Inl e
      | None \<Rightarrow>
          Inr \<lparr>type_tag = ''boolean'',
               default_value = defaultValue,
               label = orUndefined (optional opts opt_label),
               sanitize = (\<lambda>val. (sanitizeBoolean val, [])),
               interpolate = LeftInterpolate\<rparr>)"

definition stringSanitize :: "opts_arg \<Rightarrow> sanitizer" where
  "stringSanitize opts =
     (\<lambda>v. case optional opts opt_sanitize of
             Some custom \<Rightarrow> (custom v, [v])
           | None \<Rightarrow> (if typeof v = TString then v else JUndefined, []))"

definition string_type :: "string \<Rightarrow> jsval \<Rightarrow> opts_arg \<Rightarrow> config_error + PropTypeConfig" where
  "string_type NODE_ENV defaultValue opts =
     (case (if \<not> production NODE_ENV then
              (case validateCommonOpts NODE_ENV opts of
                 Some e \<Rightarrow> Some e
               | None \<Rightarrow>
                   if typeof defaultValue \<noteq> TString then Some DefaultMustBeString else None)
            else None) of
        Some e \<Rightarrow> Inl e
      | None \<Rightarrow>
          Inr \<lparr>type_tag = ''string'',
               default_value = defaultValue,
               label = orUndefined (optional opts opt_label),
               sanitize = stringSanitize opts,
               interpolate =
                 (if givesInterpolate opts then CustomInterpolate else LeftInterpolate)\<rparr>)"

text \<open>
  \<open>stringLiteral\<close> reads neither \<open>process.env.NODE_ENV\<close> nor calls
  \<open>validateCommonOpts\<close>, and it has no \<open>throw\<close>: it returns a config for every input.
\<close>

definition stringLiteralSanitize :: "(string \<times> string) list \<Rightarrow> sanitizer" where
  "stringLiteralSanitize opts =
     (\<lambda>v. case v of
             JStr s \<Rightarrow> (if map_of opts s \<noteq> None then JStr s else JUndefined, [])
           | _ \<Rightarrow> (JUndefined, []))"

definition stringLiteral ::
  "jsval \<Rightarrow> (string \<times> string) list \<Rightarrow> opts_arg \<Rightarrow> PropTypeConfig_StringLiteral" where
  "stringLiteral defaultValue opts_of_literal opts =
     \<lparr>type_tag = ''stringLiteral'',
      default_value = defaultValue,
      label = orUndefined (optional opts opt_label),
      sanitize = stringLiteralSanitize opts_of_literal,
      interpolate = LeftInterpolate,
      options = opts_of_literal,
      as_editor =
        (case optional opts opt_as of
           None \<Rightarrow> JStr ''menu''
         | Some JUndefined \<Rightarrow> JStr ''menu''
         | Some JNull \<Rightarrow> JStr ''menu''
         | Some v \<Rightarrow> v)\<rparr>"

text \<open>
  Fixtures of the examples: the options object \<open>{}\<close>, and a persistence file with
  the one text that \<open>exampleParse\<close>, standing for \<open>JSON.parse\<close>, accepts.
\<close>

definition emptyOpts :: opts_fields where
  "emptyOpts =
     \<lparr>opt_label = None, opt_range = None, opt_nudgeMultiplier = None, opt_nudgeFn = None,
      opt_sanitize = None, opt_interpolate = False, opt_as = None\<rparr>"

definition exampleFile :: string where
  \<open>exampleFile = ''{"projects":{"listOfPaths":["/a"]}}''\<close>

text \<open>
  An equality for the examples of the watch phase, standing for \<open>deepEqual\<close>: on the
  projections compared there, objects of string arrays, the two agree.
\<close>

definition structuralEqual :: "jsval \<Rightarrow> jsval \<Rightarrow> bool" where
  "structuralEqual a b = (a = b)"

definition exampleParse :: "string \<Rightarrow> jsval option" where
  "exampleParse s =
     (if s = exampleFile
      then Some (JObj [(''projects'', JObj [(''listOfPaths'', JArr [JStr ''/a''])])])
      else None)"

section \<open>Facts about own properties\<close>


lemma at_key_Cons:
  "at_key ((k, v) # m) k' = (if k' = k then v else at_key m k')"
  by (simp add: at_key_def)

lemma at_key_Nil: "at_key [] k = JUndefined"
  by (simp add: at_key_def)

lemma map_of_insertIndex: "map_of (insertIndex k v m) = (map_of m)(k \<mapsto> v)"
  by (induction m) (auto simp: fun_eq_iff)

lemma map_of_defineProperty: "map_of (defineProperty k v m) = (map_of m)(k \<mapsto> v)"
  by (auto simp: defineProperty_def map_of_insertIndex AList.update_conv' hasOwnProperty_def
      fun_eq_iff map_add_def split: option.splits)

lemma at_key_defineProperty:
  "at_key (defineProperty k v m) k' = (if k' = k then v else at_key m k')"
  by (simp add: at_key_def map_of_defineProperty)









section \<open>Facts about the object helpers\<close>







lemma array_reduce_None: "array_reduce reducePair pairs None = None"
  by (induction pairs) (simp_all add: reducePair_def)



lemma getAlong_undefined: "p \<noteq> [] \<Longrightarrow> getAlong JUndefined p = JUndefined"
  by (cases p) simp_all






section \<open>DictAtom: construction and change events\<close>

lemma forEachArgs_own:
  "arrayLikeLength (at_key ob ''length'') = None \<Longrightarrow>
   forEachArgs (plainObject ob) = map (\<lambda>(k, v). (Name k, v)) ob"
  by (simp add: forEachArgs_def getProp_def plainObject_def inheritedGet_def at_key_def
      hasOwnProperty_def split: option.splits)

lemma setAndAdoptAll_emitted: "emitted (setAndAdoptAll args a) = emitted a"
  by (induction args a rule: setAndAdoptAll.induct) (simp_all add: setAndAdopt_def adopt_def)

lemma setAndAdoptAll_tappers: "tappers (setAndAdoptAll args a) = tappers a"
  by (induction args a rule: setAndAdoptAll.induct) (simp_all add: setAndAdopt_def adopt_def)



lemma collectAddedKeys_names:
  "findsHasOwnProperty (internalMap a) \<Longrightarrow>
   collectAddedKeys a (map (\<lambda>(k, v). (Name k, v)) ob) acc =
     Inr (acc @ map Name (filter (\<lambda>k. \<not> hasOwnProperty (own (internalMap a)) k) (map fst ob)))"
  by (induction ob arbitrary: acc) (auto simp: callHasOwnProperty_def)

lemma previousRefs_defined:
  "findsHasOwnProperty (internalMap a) \<Longrightarrow> \<exists>refs'. previousRefs a ob refs = Inr refs'"
  by (induction ob arbitrary: refs) (auto simp: dict_prop_def callHasOwnProperty_def)

lemma unadoptAll_fields:
  "emitted (unadoptAll args a) = emitted a \<and> tappers (unadoptAll args a) = tappers a"
  by (induction args a rule: unadoptAll.induct) (simp_all add: unadopt_def)

text \<open>
  What \<open>assign\<close> emits when the method \<open>hasOwnProperty\<close> is found on the internal
  map and the argument is not array-like: nothing without a listener, and otherwise one
  event whose \<open>addedKeys\<close> are the keys of the argument that the atom did not have,
  whose \<open>deletedKeys\<close> is empty and whose \<open>overriddenRefs\<close> is the argument itself.
\<close>

lemma assign_emitted:
  assumes "findsHasOwnProperty (internalMap a)"
    and "arrayLikeLength (at_key ob ''length'') = None"
  shows "\<exists>a'. assign ob a = Inr a' \<and>
           emitted a' =
             (if 0 < tappers a
              then emitted a @
                [\<lparr>overriddenRefs = ob, deletedKeys = [],
                  addedKeys = map Name (filter (\<lambda>k. \<not> hasOwnProperty (own (internalMap a)) k)
                                          (map fst ob))\<rparr>]
              else emitted a)"
proof -
  obtain refs where refs: "previousRefs a ob [] = Inr refs"
    using previousRefs_defined [OF assms(1)] by blast
  show ?thesis
    by (simp add: assign_def dict_change_def forEachArgs_own [OF assms(2)]
        collectAddedKeys_names [OF assms(1)] refs Let_def hasTappers_def emit_def
        setAndAdoptAll_emitted setAndAdoptAll_tappers unadoptAll_fields)
qed

text \<open>
  Claim C1, at the input where the code departs from it. A DictAtom built from
  \<open>{a: 1}\<close> with one listener registered receives \<open>assign({a: 2})\<close>. The atom held
  \<open>1\<close> for \<open>a\<close> before the call, and \<open>_change\<close> computes that previous value in its
  local \<open>overriddenRefs\<close>; the one event it emits carries the argument of the call
  instead, so its \<open>overriddenRefs\<close> maps \<open>a\<close> to the new value \<open>2\<close>.
\<close>

theorem assign_event_carries_new_values:
  "dict_prop (tap (dict [(''a'', JNum (Fin 1))])) ''a'' = Inr (JNum (Fin 1)) \<and>
   map_sum id emitted (assign [(''a'', JNum (Fin 2))] (tap (dict [(''a'', JNum (Fin 1))]))) =
     Inr [\<lparr>overriddenRefs = [(''a'', JNum (Fin 2))], deletedKeys = [], addedKeys = []\<rparr>]"
  by (simp add: assign_def dict_change_def dict_def assignInitialValue_def forEachArgs_def
      getProp_def plainObject_def inheritedGet_def hasOwnProperty_def at_key_def emptyAtom_def
      tap_def setAndAdopt_def adopt_def unadopt_def assignProperty_def defineProperty_def
      dict_prop_def callHasOwnProperty_def findsHasOwnProperty_def hasTappers_def emit_def
      isArrayIndex_def uintString_def isDigit_def)




section \<open>The wrapped reducer\<close>

text \<open>
  What \<open>mergeStateAction\<close> does on any input: it throws unless the payload and the
  state are both objects (arrays included), and merges them otherwise.
\<close>

lemma mergeStateAction_cases:
  "wrapRootReducer rootReducer state (MergeStateAction payload) =
     (if payload = JNull \<or> typeof payload \<noteq> TObject then Inl (MergePayloadMustBeObject payload)
      else if state = JNull \<or> typeof state \<noteq> TObject
      then Inl (MergeStateMustBeObjectOrVoid state)
      else Inr (JObj (spread (spread [] state) payload)))"
  by (cases state) auto

text \<open>
  Claim C2, at the input where the code departs from it. A \<open>mergeStateAction\<close> with
  the object payload \<open>{z: 3}\<close> is dispatched against the state \<open>undefined\<close>. The
  claim, the message of the error and the fallback \<open>state || {}\<close> all allow a void
  state, for which the merge would be \<open>{z: 3}\<close>; the guard throws for it.
\<close>

theorem mergeStateAction_void_state_throws:
  "wrapRootReducer exampleReducer JUndefined (MergeStateAction (JObj [(''z'', JNum (Fin 3))])) =
     Inl (MergeStateMustBeObjectOrVoid JUndefined)"
  by simp






section \<open>The load phase of the persistence saga\<close>

lemma spreadPaths_whitelist_overlay:
  assumes "\<not> isArray (at_key st ''projects'')"
  shows "baseGet (spreadPaths whitelistOfPartsOfStateToPersist jsonData (JObj st))
           [''projects'', ''listOfPaths''] = baseGet jsonData [''projects'', ''listOfPaths''] \<and>
         (k \<noteq> ''projects'' \<longrightarrow>
            getProperty (spreadPaths whitelistOfPartsOfStateToPersist jsonData (JObj st)) k =
            getProperty (JObj st) k)"
  using assms
  by (cases "at_key st ''projects''")
    (simp_all add: whitelistOfPartsOfStateToPersist_def baseSet_def baseGet_def
      getProperty_def at_key_defineProperty at_key_Cons at_key_Nil Let_def)

lemma spreadPaths_whitelist_siblings:
  assumes "at_key st ''projects'' = JObj ps" and "k \<noteq> ''listOfPaths''"
  shows "getProperty (getProperty (spreadPaths whitelistOfPartsOfStateToPersist jsonData (JObj st))
           ''projects'') k = at_key ps k"
  using assms
  by (simp add: whitelistOfPartsOfStateToPersist_def baseSet_def baseGet_def
      getProperty_def at_key_defineProperty Let_def)

text \<open>
  Claim C5. The load phase puts only the bootstrap action when the persistence file is
  absent. When the file exists and is read but its content does not parse as JSON, it
  logs an error and puts only the bootstrap action, returning normally. When the content
  parses, it puts exactly one \<open>setStateAction\<close> and then the bootstrap action; the
  payload is the current state with each whitelisted path overlaid from the parsed
  JSON: for a state that is an object, the value at \<open>projects.listOfPaths\<close> is the
  one of the parsed JSON, every other top-level key keeps its value, and so does every
  other key of an object \<open>projects\<close>.
\<close>

theorem loadState_phases:
  "(\<not> pathExists w \<longrightarrow> loadState JSON_parse w = Inr [Put bootstrapAction]) \<and>
   (pathExists w \<and> readFile w = Some content \<and> JSON_parse content = None \<longrightarrow>
      loadState JSON_parse w = Inr [ConsoleError, Put bootstrapAction]) \<and>
   (pathExists w \<and> readFile w = Some content \<and> JSON_parse content = Some jsonData \<longrightarrow>
      (\<exists>newState.
         loadState JSON_parse w = Inr [Put (setStateAction newState), Put bootstrapAction] \<and>
         newState = spreadPaths whitelistOfPartsOfStateToPersist jsonData (select w) \<and>
         (select w = JObj st \<and> \<not> isArray (at_key st ''projects'') \<longrightarrow>
            baseGet newState [''projects'', ''listOfPaths''] =
              baseGet jsonData [''projects'', ''listOfPaths''] \<and>
            (\<forall>k. k \<noteq> ''projects'' \<longrightarrow> getProperty newState k = at_key st k)) \<and>
         (select w = JObj st \<and> at_key st ''projects'' = JObj ps \<longrightarrow>
            (\<forall>k. k \<noteq> ''listOfPaths'' \<longrightarrow>
               getProperty (getProperty newState ''projects'') k = at_key ps k))))"
proof (intro conjI impI)
  assume "\<not> pathExists w"
  then show "loadState JSON_parse w = Inr [Put bootstrapAction]"
    by (simp add: loadState_def)
next
  assume "pathExists w \<and> readFile w = Some content \<and> JSON_parse content = None"
  then show "loadState JSON_parse w = Inr [ConsoleError, Put bootstrapAction]"
    by (simp add: loadState_def)
next
  assume h: "pathExists w \<and> readFile w = Some content \<and> JSON_parse content = Some jsonData"
  let ?new = "spreadPaths whitelistOfPartsOfStateToPersist jsonData (select w)"
  have run: "loadState JSON_parse w = Inr [Put (setStateAction ?new), Put bootstrapAction]"
    using h by (simp add: loadState_def)
  have over: "baseGet ?new [''projects'', ''listOfPaths''] =
        baseGet jsonData [''projects'', ''listOfPaths''] \<and>
      (\<forall>k. k \<noteq> ''projects'' \<longrightarrow> getProperty ?new k = at_key st k)"
    if "select w = JObj st \<and> \<not> isArray (at_key st ''projects'')"
    using that spreadPaths_whitelist_overlay [of st jsonData]
    by (simp add: getProperty_def)
  have sib: "\<forall>k. k \<noteq> ''listOfPaths'' \<longrightarrow>
        getProperty (getProperty ?new ''projects'') k = at_key ps k"
    if "select w = JObj st \<and> at_key st ''projects'' = JObj ps"
    using that spreadPaths_whitelist_siblings [of st ps _ jsonData] by simp
  from run over sib
  show "\<exists>newState.
         loadState JSON_parse w = Inr [Put (setStateAction newState), Put bootstrapAction] \<and>
         newState = spreadPaths whitelistOfPartsOfStateToPersist jsonData (select w) \<and>
         (select w = JObj st \<and> \<not> isArray (at_key st ''projects'') \<longrightarrow>
            baseGet newState [''projects'', ''listOfPaths''] =
              baseGet jsonData [''projects'', ''listOfPaths''] \<and>
            (\<forall>k. k \<noteq> ''projects'' \<longrightarrow> getProperty newState k = at_key st k)) \<and>
         (select w = JObj st \<and> at_key st ''projects'' = JObj ps \<longrightarrow>
            (\<forall>k. k \<noteq> ''listOfPaths'' \<longrightarrow>
               getProperty (getProperty newState ''projects'') k = at_key ps k))"
    by blast
qed

theorem loadState_phases_witness:
  "loadState exampleParse \<lparr>pathExists = False, readFile = None, select = JObj []\<rparr> =
     Inr [Put bootstrapAction] \<and>
   loadState exampleParse \<lparr>pathExists = True, readFile = Some ''{'', select = JObj []\<rparr> =
     Inr [ConsoleError, Put bootstrapAction] \<and>
   loadState exampleParse
     \<lparr>pathExists = True, readFile = Some exampleFile,
      select = JObj [(''projects'', JObj [(''listOfPaths'', JArr []), (''open'', JNull)]),
                     (''ui'', JBool True)]\<rparr> =
     Inr [Put (setStateAction
                 (JObj [(''projects'',
                         JObj [(''listOfPaths'', JArr [JStr ''/a'']), (''open'', JNull)]),
                        (''ui'', JBool True)])),
          Put bootstrapAction]"
proof -
  let ?json = "JObj [(''projects'', JObj [(''listOfPaths'', JArr [JStr ''/a''])])]"
  let ?old = "JObj [(''projects'', JObj [(''listOfPaths'', JArr []), (''open'', JNull)]),
                     (''ui'', JBool True)]"
  have p1: "exampleParse ''{'' = None"
    by (simp add: exampleParse_def exampleFile_def)
  have p2: "exampleParse exampleFile = Some ?json"
    by (simp add: exampleParse_def)
  have sp: "spreadPaths whitelistOfPartsOfStateToPersist ?json ?old =
      JObj [(''projects'', JObj [(''listOfPaths'', JArr [JStr ''/a'']), (''open'', JNull)]),
            (''ui'', JBool True)]"
    by (simp add: whitelistOfPartsOfStateToPersist_def baseSet_def baseGet_def
        getProperty_def at_key_def defineProperty_def hasOwnProperty_def)
  from loadState_phases [where w = "\<lparr>pathExists = False, readFile = None, select = JObj []\<rparr>"
      and JSON_parse = exampleParse]
  have a: "loadState exampleParse \<lparr>pathExists = False, readFile = None, select = JObj []\<rparr> =
     Inr [Put bootstrapAction]"
    by simp
  from loadState_phases [where w = "\<lparr>pathExists = True, readFile = Some ''{'', select = JObj []\<rparr>"
      and JSON_parse = exampleParse and content = "''{''"]
  have b: "loadState exampleParse \<lparr>pathExists = True, readFile = Some ''{'', select = JObj []\<rparr> =
     Inr [ConsoleError, Put bootstrapAction]"
    using p1 by simp
  from loadState_phases [where w = "\<lparr>pathExists = True, readFile = Some exampleFile, select = ?old\<rparr>"
      and JSON_parse = exampleParse and content = exampleFile and jsonData = ?json]
  have c: "loadState exampleParse \<lparr>pathExists = True, readFile = Some exampleFile, select = ?old\<rparr> =
     Inr [Put (setStateAction (spreadPaths whitelistOfPartsOfStateToPersist ?json ?old)),
          Put bootstrapAction]"
    using p2 by auto
  from a b c show ?thesis unfolding sp by blast
qed

section \<open>The watch phase of the persistence saga\<close>

lemma takeLatest_burst:
  "burst ds \<Longrightarrow> ds \<noteq> [] \<Longrightarrow>
   takeLatest debounceDelay body ds p = body (storeState (last ds)) p"
  by (induction debounceDelay body ds p rule: takeLatest.induct) simp_all

lemma pickPathsFromObject_whitelist:
  "pickPathsFromObject s whitelistOfPartsOfStateToPersist =
     (if hasIn s [''projects'', ''listOfPaths'']
      then JObj [(''projects'',
                  JObj [(''listOfPaths'', baseGet s [''projects'', ''listOfPaths''])])]
      else JObj [])"
  by (auto simp: pickPathsFromObject_def whitelistOfPartsOfStateToPersist_def baseSet_def
      getProperty_def at_key_Nil defineProperty_def hasOwnProperty_def isArrayIndex_def
      uintString_def isDigit_def)

text \<open>
  Claim C6. When several actions are dispatched in a burst, each before the delay of
  the one before it has elapsed, every worker but the last is superseded, so at most one
  write occurs, and it is the whitelisted projection of the latest state: the object
  \<open>{projects: {listOfPaths: v}}\<close> for the value \<open>v\<close> at that path of the latest
  state, or \<open>{}\<close> when the path is absent. The write is performed only when that
  projection differs, by \<open>deepEqual\<close>, from the last persisted one, which it then
  replaces; otherwise nothing is written and the snapshot is unchanged.
\<close>

theorem latest_wins:
  "ds \<noteq> [] \<and> burst ds \<and>
   latest = pickPathsFromObject (storeState (last ds)) whitelistOfPartsOfStateToPersist \<longrightarrow>
     (\<not> deepEqual (lastState p) latest \<longrightarrow>
        writes (takeLatest debounceDelay (worker deepEqual) ds p) = writes p @ [latest] \<and>
        lastState (takeLatest debounceDelay (worker deepEqual) ds p) = latest) \<and>
     (deepEqual (lastState p) latest \<longrightarrow>
        takeLatest debounceDelay (worker deepEqual) ds p = p) \<and>
     latest =
       (if hasIn (storeState (last ds)) [''projects'', ''listOfPaths'']
        then JObj [(''projects'',
                    JObj [(''listOfPaths'',
                           baseGet (storeState (last ds)) [''projects'', ''listOfPaths''])])]
        else JObj [])"
proof (intro impI)
  assume h: "ds \<noteq> [] \<and> burst ds \<and>
    latest = pickPathsFromObject (storeState (last ds)) whitelistOfPartsOfStateToPersist"
  then have l: "pickPathsFromObject (storeState (last ds)) whitelistOfPartsOfStateToPersist = latest"
    by simp
  have run: "takeLatest debounceDelay (worker deepEqual) ds p =
      worker deepEqual (storeState (last ds)) p"
    using h takeLatest_burst by blast
  have w: "worker deepEqual (storeState (last ds)) p =
      (if \<not> deepEqual (lastState p) latest
       then p\<lparr>writes := writes p @ [latest], lastState := latest\<rparr> else p)"
    by (simp add: worker_def persistNewState_def Let_def l)
  have shape: "latest =
       (if hasIn (storeState (last ds)) [''projects'', ''listOfPaths'']
        then JObj [(''projects'',
                    JObj [(''listOfPaths'',
                           baseGet (storeState (last ds)) [''projects'', ''listOfPaths''])])]
        else JObj [])"
    unfolding l [symmetric] by (rule pickPathsFromObject_whitelist)
  have differs: "writes (takeLatest debounceDelay (worker deepEqual) ds p) = writes p @ [latest] \<and>
        lastState (takeLatest debounceDelay (worker deepEqual) ds p) = latest"
    if "\<not> deepEqual (lastState p) latest"
    using that by (simp add: run w)
  have same: "takeLatest debounceDelay (worker deepEqual) ds p = p"
    if "deepEqual (lastState p) latest"
    using that by (simp add: run w)
  from differs same shape
  show "(\<not> deepEqual (lastState p) latest \<longrightarrow>
        writes (takeLatest debounceDelay (worker deepEqual) ds p) = writes p @ [latest] \<and>
        lastState (takeLatest debounceDelay (worker deepEqual) ds p) = latest) \<and>
     (deepEqual (lastState p) latest \<longrightarrow>
        takeLatest debounceDelay (worker deepEqual) ds p = p) \<and>
     latest =
       (if hasIn (storeState (last ds)) [''projects'', ''listOfPaths'']
        then JObj [(''projects'',
                    JObj [(''listOfPaths'',
                           baseGet (storeState (last ds)) [''projects'', ''listOfPaths''])])]
        else JObj [])"
    by blast
qed

theorem latest_wins_witness:
  "persistStateChanges structuralEqual
     (JObj [(''projects'', JObj [(''listOfPaths'', JArr [])]), (''ui'', JNull)])
     [\<lparr>at_time = 10,
       storeState = JObj [(''projects'', JObj [(''listOfPaths'', JArr [JStr ''/a''])]),
                          (''ui'', JNull)]\<rparr>,
      \<lparr>at_time = 11,
       storeState = JObj [(''projects'', JObj [(''listOfPaths'', JArr [JStr ''/a'', JStr ''/b''])]),
                          (''ui'', JBool True)]\<rparr>] =
   \<lparr>lastState = JObj [(''projects'', JObj [(''listOfPaths'', JArr [JStr ''/a'', JStr ''/b''])])],
    writes = [JObj [(''projects'', JObj [(''listOfPaths'', JArr [JStr ''/a'', JStr ''/b''])])]]\<rparr> \<and>
   persistStateChanges structuralEqual
     (JObj [(''projects'', JObj [(''listOfPaths'', JArr [])]), (''ui'', JNull)])
     [\<lparr>at_time = 10,
       storeState = JObj [(''projects'', JObj [(''listOfPaths'', JArr [JStr ''/a''])]),
                          (''ui'', JNull)]\<rparr>,
      \<lparr>at_time = 11,
       storeState = JObj [(''projects'', JObj [(''listOfPaths'', JArr [])]),
                          (''ui'', JBool True)]\<rparr>] =
   \<lparr>lastState = JObj [(''projects'', JObj [(''listOfPaths'', JArr [])])], writes = []\<rparr>"
proof -
  let ?s0 = "JObj [(''projects'', JObj [(''listOfPaths'', JArr [])]), (''ui'', JNull)]"
  let ?s1 = "JObj [(''projects'', JObj [(''listOfPaths'', JArr [JStr ''/a''])]), (''ui'', JNull)]"
  let ?s2 = "JObj [(''projects'', JObj [(''listOfPaths'', JArr [JStr ''/a'', JStr ''/b''])]),
                   (''ui'', JBool True)]"
  let ?s3 = "JObj [(''projects'', JObj [(''listOfPaths'', JArr [])]), (''ui'', JBool True)]"
  let ?p0 = "\<lparr>lastState = JObj [(''projects'', JObj [(''listOfPaths'', JArr [])])], writes = []\<rparr>"
  let ?l2 = "JObj [(''projects'', JObj [(''listOfPaths'', JArr [JStr ''/a'', JStr ''/b''])])]"
  let ?l3 = "JObj [(''projects'', JObj [(''listOfPaths'', JArr [])])]"
  let ?ds2 = "[\<lparr>at_time = 10, storeState = ?s1\<rparr>, \<lparr>at_time = 11, storeState = ?s2\<rparr>]"
  let ?ds3 = "[\<lparr>at_time = 10, storeState = ?s1\<rparr>, \<lparr>at_time = 11, storeState = ?s3\<rparr>]"
  have pr: "pickPathsFromObject ?s0 whitelistOfPartsOfStateToPersist = ?l3"
    "pickPathsFromObject ?s2 whitelistOfPartsOfStateToPersist = ?l2"
    "pickPathsFromObject ?s3 whitelistOfPartsOfStateToPersist = ?l3"
    by (simp_all add: pickPathsFromObject_whitelist hasOwnProperty_def getProperty_def
        baseGet_def at_key_Cons)
  have b: "burst ?ds2" "burst ?ds3" by (simp_all add: debounceDelay_def)
  have h2: "?ds2 \<noteq> [] \<and> burst ?ds2 \<and>
      ?l2 = pickPathsFromObject (storeState (last ?ds2)) whitelistOfPartsOfStateToPersist"
    using b pr by simp
  have h3: "?ds3 \<noteq> [] \<and> burst ?ds3 \<and>
      ?l3 = pickPathsFromObject (storeState (last ?ds3)) whitelistOfPartsOfStateToPersist"
    using b pr by simp
  have d2: "\<not> structuralEqual (lastState ?p0) ?l2" by (simp add: structuralEqual_def)
  have d3: "structuralEqual (lastState ?p0) ?l3" by (simp add: structuralEqual_def)
  from latest_wins [where ds = ?ds2 and latest = ?l2 and p = ?p0
      and deepEqual = structuralEqual, THEN mp, OF h2] d2
  have "writes (takeLatest debounceDelay (worker structuralEqual) ?ds2 ?p0) = writes ?p0 @ [?l2] \<and>
      lastState (takeLatest debounceDelay (worker structuralEqual) ?ds2 ?p0) = ?l2"
    by blast
  then have a2: "takeLatest debounceDelay (worker structuralEqual) ?ds2 ?p0 =
      \<lparr>lastState = ?l2, writes = [?l2]\<rparr>"
    by (intro persistor.equality) simp_all
  from latest_wins [where ds = ?ds3 and latest = ?l3 and p = ?p0
      and deepEqual = structuralEqual, THEN mp, OF h3] d3
  have a3: "takeLatest debounceDelay (worker structuralEqual) ?ds3 ?p0 = ?p0"
    by blast
  show ?thesis
    unfolding persistStateChanges_def pr using a2 a3 by simp
qed

section \<open>Prop types: validation and sanitizers\<close>

text \<open>
  Claim C7, at the inputs where the code departs from it. In a development build
  \<open>stringLiteral("x", {r: "Red"})\<close> returns a config whose default \<open>x\<close> is not a
  key of the options (its own sanitizer rejects that default), and
  \<open>stringLiteral("r", {r: "Red"}, {label: ""})\<close> returns a config with the empty
  label. The sibling constructor \<open>string\<close> throws in a development build for a
  default of the wrong kind and for the empty label, and skips both checks in a
  production build.
\<close>

theorem stringLiteral_never_validates:
  "default_value (stringLiteral (JStr ''x'') [(''r'', ''Red'')] OptsUndefined) = JStr ''x'' \<and>
   fst (sanitize (stringLiteral (JStr ''x'') [(''r'', ''Red'')] OptsUndefined) (JStr ''x'')) =
     JUndefined \<and>
   string_type ''development'' (JNum (Fin 1)) OptsUndefined = Inl DefaultMustBeString \<and>
   label (stringLiteral (JStr ''r'') [(''r'', ''Red'')] (Opts (emptyOpts\<lparr>opt_label := Some (JStr [])\<rparr>))) =
     JStr [] \<and>
   string_type ''development'' (JStr ''r'') (Opts (emptyOpts\<lparr>opt_label := Some (JStr [])\<rparr>)) =
     Inl LabelEmpty \<and>
   string_type ''production'' (JNum (Fin 1)) (Opts (emptyOpts\<lparr>opt_label := Some (JStr [])\<rparr>)) =
     Inr \<lparr>type_tag = ''string'', default_value = JNum (Fin 1), label = JStr [],
          sanitize = stringSanitize (Opts (emptyOpts\<lparr>opt_label := Some (JStr [])\<rparr>)),
          interpolate = LeftInterpolate\<rparr>"
  by (simp add: stringLiteral_def stringLiteralSanitize_def string_type_def
      production_def validateCommonOpts_def emptyOpts_def trim_def)

text \<open>
  Claim C8. The sanitizer of a config returned by \<open>number(defaultValue, opts)\<close>
  returns \<open>undefined\<close>, without invoking any sanitizer of the options, for every
  value that is not a finite number. For a finite number it returns the number itself
  when \<open>opts.sanitize\<close> is not given; when it is given, it invokes \<open>opts.sanitize\<close>
  once, on that number, and returns its result.
\<close>

theorem number_sanitize:
  assumes "number NODE_ENV defaultValue opts = Inr cfg"
  shows "(\<not> finiteNumber v \<longrightarrow> sanitize cfg v = (JUndefined, [])) \<and>
         (finiteNumber v \<and> optional opts opt_sanitize = None \<longrightarrow> sanitize cfg v = (v, [])) \<and>
         (finiteNumber v \<and> optional opts opt_sanitize = Some custom \<longrightarrow>
            sanitize cfg v = (custom v, [v]))"
proof -
  have s: "sanitize cfg = numberSanitize opts"
    using assms by (auto simp: number_def split: option.splits)
  have n: "typeof v = TNumber" if "finiteNumber v"
    using that by (cases v) simp_all
  show ?thesis
    using n by (auto simp: s numberSanitize_def sanitizeNumber_def Let_def split: option.splits)
qed

theorem number_sanitize_witness:
  "(\<exists>cfg. number ''development'' (JNum (Fin 0)) (Opts (emptyOpts\<lparr>opt_sanitize := Some plusOne\<rparr>)) =
           Inr cfg \<and>
         sanitize cfg (JStr ''7'') = (JUndefined, []) \<and>
         sanitize cfg (JNum NaN) = (JUndefined, []) \<and>
         sanitize cfg (JNum PosInfinity) = (JUndefined, []) \<and>
         sanitize cfg (JNum (Fin 7)) = (JNum (Fin 8), [JNum (Fin 7)])) \<and>
   (\<exists>cfg. number ''production'' (JNum (Fin 0)) OptsUndefined = Inr cfg \<and>
         sanitize cfg JNull = (JUndefined, []) \<and>
         sanitize cfg (JNum (Fin 7)) = (JNum (Fin 7), []))"
proof -
  let ?opts = "Opts (emptyOpts\<lparr>opt_sanitize := Some plusOne\<rparr>)"
  obtain c1 where c1: "number ''development'' (JNum (Fin 0)) ?opts = Inr c1"
    by (simp add: number_def validateNumber_def validateCommonOpts_def production_def
        checkNumberOpts_def emptyOpts_def)
  obtain c2 where c2: "number ''production'' (JNum (Fin 0)) OptsUndefined = Inr c2"
    by (simp add: number_def validateNumber_def production_def)
  have o: "optional ?opts opt_sanitize = Some plusOne" by (simp add: emptyOpts_def)
  have a: "sanitize c1 (JStr ''7'') = (JUndefined, [])"
    using number_sanitize [OF c1, of "JStr ''7''"] by simp
  have b: "sanitize c1 (JNum NaN) = (JUndefined, [])"
    using number_sanitize [OF c1, of "JNum NaN"] by simp
  have c: "sanitize c1 (JNum PosInfinity) = (JUndefined, [])"
    using number_sanitize [OF c1, of "JNum PosInfinity"] by simp
  have d: "sanitize c1 (JNum (Fin 7)) = (JNum (Fin 8), [JNum (Fin 7)])"
    using number_sanitize [OF c1, of "JNum (Fin 7)" plusOne] o by simp
  have e: "sanitize c2 JNull = (JUndefined, [])"
    using number_sanitize [OF c2, of JNull] by simp
  have f: "sanitize c2 (JNum (Fin 7)) = (JNum (Fin 7), [])"
    using number_sanitize [OF c2, of "JNum (Fin 7)"] by simp
  from c1 c2 a b c d e f show ?thesis by blast
qed

text \<open>
  Claim C9. The sanitizer of a config returned by \<open>rgba(defaultValue, opts)\<close> is the
  identity: it returns every value unchanged, with no clamping of the channels and no
  rejection, and it never invokes a sanitizer of the options.
\<close>

theorem rgba_sanitize_identity:
  assumes "rgba NODE_ENV defaultValue opts = Inr cfg"
  shows "sanitize cfg v = (v, [])"
  using assms by (auto simp: rgba_def sanitizeRgba_def split: option.splits if_splits)

theorem rgba_sanitize_identity_witness:
  "\<exists>cfg. rgba ''development''
           (JObj [(''r'', JNum (Fin 1)), (''g'', JNum (Fin 0)), (''b'', JNum (Fin 0)),
                  (''alpha'', JNum (Fin 1))])
           (Opts (emptyOpts\<lparr>opt_sanitize := Some plusOne\<rparr>)) = Inr cfg \<and>
         sanitize cfg (JObj [(''r'', JNum (Fin 7)), (''g'', JNum (Fin (-1))),
                             (''b'', JNum NaN), (''alpha'', JNum (Fin 2))]) =
           (JObj [(''r'', JNum (Fin 7)), (''g'', JNum (Fin (-1))),
                  (''b'', JNum NaN), (''alpha'', JNum (Fin 2))], []) \<and>
         sanitize cfg (JStr ''red'') = (JStr ''red'', [])"
proof -
  obtain c where c: "rgba ''development''
           (JObj [(''r'', JNum (Fin 1)), (''g'', JNum (Fin 0)), (''b'', JNum (Fin 0)),
                  (''alpha'', JNum (Fin 1))])
           (Opts (emptyOpts\<lparr>opt_sanitize := Some plusOne\<rparr>)) = Inr c"
    by (simp add: rgba_def validateCommonOpts_def production_def emptyOpts_def)
  show ?thesis
    using c rgba_sanitize_identity [OF c] by simp
qed

end
